theory Spec2Isabelle
  imports Complex_Main "HOL-Library.Word" "HOL-Library.Sublist"
begin

section \<open>Values and errors of the Python program\<close>

text \<open>
  The program is \<^verbatim>\<open>zip-file-maker.py\<close>: a compression engine (class
  \<^verbatim>\<open>AdvancedCompression\<close>) and a Tk window (class \<^verbatim>\<open>ZipMakerGUI\<close>).
  A \<^verbatim>\<open>bytes\<close> object is a list of bytes, a \<^verbatim>\<open>str\<close> used as a method
  name, label or path is a \<open>string\<close>, and an exception is a value of \<open>error\<close>
  returned on the left of a sum.
\<close>

type_synonym byte = "8 word"
type_synonym bytes = "byte list"

datatype error =
    AttributeError
  | ZeroDivisionError
  | UnicodeDecodeError
  | UnicodeEncodeError
  | OSError
  | CodecError

text \<open>
  Python numbers as the entropy code meets them: an \<^verbatim>\<open>int\<close>, or a
  \<^verbatim>\<open>float\<close>. The float carries the exact quotient it was made from; the
  rounding of a double is not modelled.
\<close>

datatype pynum = PyInt int | PyFloat rat

fun num_val :: "pynum \<Rightarrow> rat" where
  "num_val (PyInt i) = of_int i"
| "num_val (PyFloat q) = q"

text \<open>\<^verbatim>\<open>a / b\<close> on two ints: true division, the result is always a float.\<close>

definition true_div :: "int \<Rightarrow> int \<Rightarrow> error + pynum" where
  "true_div a b = (if b = 0 then Inl ZeroDivisionError else Inr (PyFloat (of_int a / of_int b)))"

fun nat_bit_length :: "nat \<Rightarrow> nat" where
  "nat_bit_length n = (if n = 0 then 0 else Suc (nat_bit_length (n div 2)))"

declare nat_bit_length.simps [simp del]

text \<open>
  \<^verbatim>\<open>x.bit_length()\<close>: a method of \<^verbatim>\<open>int\<close> only. A \<^verbatim>\<open>float\<close> has no
  such attribute, and the lookup raises \<^verbatim>\<open>AttributeError\<close>.
\<close>

fun bit_length :: "pynum \<Rightarrow> error + int" where
  "bit_length (PyInt i) = Inr (int (nat_bit_length (nat \<bar>i\<bar>)))"
| "bit_length (PyFloat q) = Inl AttributeError"

fun num_mul :: "pynum \<Rightarrow> pynum \<Rightarrow> pynum" where
  "num_mul (PyInt a) (PyInt b) = PyInt (a * b)"
| "num_mul x y = PyFloat (num_val x * num_val y)"

fun num_sub :: "pynum \<Rightarrow> pynum \<Rightarrow> pynum" where
  "num_sub (PyInt a) (PyInt b) = PyInt (a - b)"
| "num_sub x y = PyFloat (num_val x - num_val y)"

definition num_gt :: "pynum \<Rightarrow> rat \<Rightarrow> bool" where
  "num_gt x c = (c < num_val x)"

section \<open>AdvancedCompression: the heuristic\<close>

text \<open>
  \<^verbatim>\<open>Counter(data).values()\<close>: the number of occurrences of each distinct byte, in
  the order in which the bytes first occur.
\<close>

fun counter_values :: "bytes \<Rightarrow> int list" where
  "counter_values [] = []"
| "counter_values (b # bs) =
     int (Suc (count_list bs b)) # counter_values (filter (\<lambda>c. c \<noteq> b) bs)"

text \<open>
  The loop of \<^verbatim>\<open>_calculate_entropy\<close>:
  \<^verbatim>\<open>
  for count in counts.values():
      probability = count / total
      entropy -= probability * (probability.bit_length())
  \<close>
\<close>

fun entropy_loop :: "int \<Rightarrow> pynum \<Rightarrow> int list \<Rightarrow> error + pynum" where
  "entropy_loop tot entropy [] = Inr entropy"
| "entropy_loop tot entropy (count # rest) =
     (case true_div count tot of
        Inl e \<Rightarrow> Inl e
      | Inr probability \<Rightarrow>
          (case bit_length probability of
             Inl e \<Rightarrow> Inl e
           | Inr k \<Rightarrow>
               entropy_loop tot (num_sub entropy (num_mul probability (PyInt k))) rest))"

definition calculate_entropy :: "bytes \<Rightarrow> error + pynum" where
  "calculate_entropy data =
     (if data = [] then Inr (PyInt 0)
      else entropy_loop (int (length data)) (PyInt 0) (counter_values data))"

definition compression_signatures :: "bytes list" where
  "compression_signatures =
     [[0x50, 0x4B, 0x03, 0x04],
      [0x1F, 0x8B],
      [0x42, 0x5A, 0x68],
      [0xFD, 0x37, 0x7A, 0x58, 0x5A],
      [0x89, 0x50, 0x4E, 0x47],
      [0xFF, 0xD8, 0xFF]]"

definition is_compressed :: "bytes \<Rightarrow> bool" where
  "is_compressed data = list_ex (\<lambda>sig. prefix sig data) compression_signatures"

text \<open>
  \<^verbatim>\<open>analyze_data\<close>: the entropy of the sample is computed first, then the
  signature test, then the thresholds.
\<close>

definition analyze_data :: "bytes \<Rightarrow> error + string" where
  "analyze_data data =
     (case calculate_entropy (take 4096 data) of
        Inl e \<Rightarrow> Inl e
      | Inr entropy \<Rightarrow>
          if is_compressed (take 4096 data) then Inr ''store''
          else if length data < 1024 then Inr ''zlib''
          else if num_gt entropy (15 / 2) then Inr ''lzma''
          else if num_gt entropy (13 / 2) then Inr ''bzip2''
          else Inr ''zlib'')"

section \<open>The Python runtime the engine calls\<close>

text \<open>
  The codecs of the modules \<^verbatim>\<open>zlib\<close>, \<^verbatim>\<open>bz2\<close> and \<^verbatim>\<open>lzma\<close>, the
  Unicode tables behind \<^verbatim>\<open>str.split\<close>, \<^verbatim>\<open>str.isalnum\<close> and
  \<^verbatim>\<open>str.lower\<close> outside ASCII, and the bytes a reader finds in a ZIP archive are
  not part of the repository. They are parameters of the model: every theorem that
  mentions a runtime holds for all of them. A codec may raise; its exception is a
  subclass of \<^verbatim>\<open>Exception\<close>.
\<close>

type_synonym entry = "string \<times> bytes"

record runtime =
  zlib_compress :: "bytes \<Rightarrow> nat \<Rightarrow> error + bytes"
  bz2_compress :: "bytes \<Rightarrow> error + bytes"
  lzma_compress :: "bytes \<Rightarrow> error + bytes"
  uni_isspace :: "nat \<Rightarrow> bool"
  uni_isalnum :: "nat \<Rightarrow> bool"
  uni_lower :: "nat list \<Rightarrow> nat list"
  zip_image :: "entry list \<Rightarrow> bytes"

section \<open>AdvancedCompression: text preprocessing\<close>

text \<open>
  \<^verbatim>\<open>data.decode('utf-8')\<close>, strict: a \<^verbatim>\<open>str\<close> is the list of its code
  points, and \<open>None\<close> is \<^verbatim>\<open>UnicodeDecodeError\<close>. Overlong forms, surrogates and
  code points above U+10FFFF are rejected.
\<close>

definition is_cont :: "byte \<Rightarrow> bool" where
  "is_cont b = (0x80 \<le> unat b \<and> unat b \<le> 0xBF)"

definition cont_bits :: "byte \<Rightarrow> nat" where
  "cont_bits b = unat b - 0x80"

fun utf8_decode :: "bytes \<Rightarrow> nat list option" where
  "utf8_decode [] = Some []"
| "utf8_decode (b # bs) =
     (let n = unat b in
      if n < 0x80 then map_option ((#) n) (utf8_decode bs)
      else if 0xC2 \<le> n \<and> n \<le> 0xDF then
        (case bs of
           c1 # r \<Rightarrow>
             if is_cont c1
             then map_option ((#) ((n - 0xC0) * 64 + cont_bits c1)) (utf8_decode r)
             else None
         | _ \<Rightarrow> None)
      else if 0xE0 \<le> n \<and> n \<le> 0xEF then
        (case bs of
           c1 # c2 # r \<Rightarrow>
             if is_cont c1 \<and> is_cont c2
                \<and> (if n = 0xE0 then 0xA0 else 0x80) \<le> unat c1
                \<and> unat c1 \<le> (if n = 0xED then 0x9F else 0xBF)
             then map_option
                    ((#) ((n - 0xE0) * 4096 + cont_bits c1 * 64 + cont_bits c2))
                    (utf8_decode r)
             else None
         | _ \<Rightarrow> None)
      else if 0xF0 \<le> n \<and> n \<le> 0xF4 then
        (case bs of
           c1 # c2 # c3 # r \<Rightarrow>
             if is_cont c1 \<and> is_cont c2 \<and> is_cont c3
                \<and> (if n = 0xF0 then 0x90 else 0x80) \<le> unat c1
                \<and> unat c1 \<le> (if n = 0xF4 then 0x8F else 0xBF)
             then map_option
                    ((#) ((n - 0xF0) * 262144 + cont_bits c1 * 4096
                           + cont_bits c2 * 64 + cont_bits c3))
                    (utf8_decode r)
             else None
         | _ \<Rightarrow> None)
      else None)"

text \<open>
  \<^verbatim>\<open>text.encode('utf-8')\<close>. A surrogate raises \<^verbatim>\<open>UnicodeEncodeError\<close>; so
  does, in the model, a number that is no code point at all.
\<close>

definition utf8_encode_cp :: "nat \<Rightarrow> error + bytes" where
  "utf8_encode_cp c =
     (if c < 0x80 then Inr [of_nat c]
      else if c < 0x800 then Inr [of_nat (0xC0 + c div 64), of_nat (0x80 + c mod 64)]
      else if c < 0x10000 then
        (if 0xD800 \<le> c \<and> c \<le> 0xDFFF then Inl UnicodeEncodeError
         else Inr [of_nat (0xE0 + c div 4096), of_nat (0x80 + c div 64 mod 64),
                   of_nat (0x80 + c mod 64)])
      else if c < 0x110000 then
        Inr [of_nat (0xF0 + c div 262144), of_nat (0x80 + c div 4096 mod 64),
             of_nat (0x80 + c div 64 mod 64), of_nat (0x80 + c mod 64)]
      else Inl UnicodeEncodeError)"

fun utf8_encode :: "nat list \<Rightarrow> error + bytes" where
  "utf8_encode [] = Inr []"
| "utf8_encode (c # cs) =
     (case utf8_encode_cp c of
        Inl e \<Rightarrow> Inl e
      | Inr bs \<Rightarrow> (case utf8_encode cs of Inl e \<Rightarrow> Inl e | Inr rest \<Rightarrow> Inr (bs @ rest)))"

text \<open>
  The character classes: written out for ASCII, taken from the runtime's tables
  beyond it.
\<close>

definition py_isspace :: "runtime \<Rightarrow> nat \<Rightarrow> bool" where
  "py_isspace rt c =
     (if c < 128 then (9 \<le> c \<and> c \<le> 13) \<or> (28 \<le> c \<and> c \<le> 32) else uni_isspace rt c)"

definition py_isalnum :: "runtime \<Rightarrow> nat \<Rightarrow> bool" where
  "py_isalnum rt c =
     (if c < 128
      then (48 \<le> c \<and> c \<le> 57) \<or> (65 \<le> c \<and> c \<le> 90) \<or> (97 \<le> c \<and> c \<le> 122)
      else uni_isalnum rt c)"

definition ascii_lower :: "nat \<Rightarrow> nat" where
  "ascii_lower c = (if 65 \<le> c \<and> c \<le> 90 then c + 32 else c)"

text \<open>\<^verbatim>\<open>text.split()\<close>: the maximal runs of characters that are not whitespace.\<close>

fun split_words :: "(nat \<Rightarrow> bool) \<Rightarrow> nat list \<Rightarrow> nat list \<Rightarrow> nat list list" where
  "split_words sp cur [] = (if cur = [] then [] else [cur])"
| "split_words sp cur (c # cs) =
     (if sp c
      then (if cur = [] then split_words sp [] cs else cur # split_words sp [] cs)
      else split_words sp (cur @ [c]) cs)"

definition str_split :: "runtime \<Rightarrow> nat list \<Rightarrow> nat list list" where
  "str_split rt text = split_words (py_isspace rt) [] text"

text \<open>\<^verbatim>\<open>' '.join(words)\<close>.\<close>

fun space_join :: "nat list list \<Rightarrow> nat list" where
  "space_join [] = []"
| "space_join [w] = w"
| "space_join (w # ws) = w @ [32] @ space_join ws"

text \<open>\<^verbatim>\<open>text.isalnum()\<close>: at least one character, and all of them alphanumeric.\<close>

definition str_isalnum :: "runtime \<Rightarrow> nat list \<Rightarrow> bool" where
  "str_isalnum rt text = (text \<noteq> [] \<and> list_all (py_isalnum rt) text)"

text \<open>
  \<^verbatim>\<open>text.lower()\<close>: character by character on an ASCII string; with a character
  beyond ASCII the mapping of the whole string is the runtime's.
\<close>

definition str_lower :: "runtime \<Rightarrow> nat list \<Rightarrow> nat list" where
  "str_lower rt text =
     (if list_all (\<lambda>c. c < 128) text then map ascii_lower text else uni_lower rt text)"

text \<open>
  \<^verbatim>\<open>preprocess_text\<close>: only \<^verbatim>\<open>UnicodeDecodeError\<close> is caught, and then the
  data comes back as it was.
\<close>

definition preprocess_text :: "runtime \<Rightarrow> bytes \<Rightarrow> error + bytes" where
  "preprocess_text rt data =
     (case utf8_decode data of
        None \<Rightarrow> Inr data
      | Some text \<Rightarrow>
          (let text1 = space_join (str_split rt text);
               text2 = (if str_isalnum rt text1 then str_lower rt text1 else text1)
           in utf8_encode text2))"

section \<open>AdvancedCompression: compress\_data\<close>

definition digit_char :: "nat \<Rightarrow> char" where
  "digit_char d = char_of (48 + d)"

fun str_of_nat :: "nat \<Rightarrow> string" where
  "str_of_nat n =
     (if n < 10 then [digit_char n] else str_of_nat (n div 10) @ [digit_char (n mod 10)])"

declare str_of_nat.simps [simp del]

text \<open>
  The loop over the levels \<^verbatim>\<open>[1, 6, 9]\<close>: it starts from
  \<^verbatim>\<open>best_compressed = data\<close>, \<^verbatim>\<open>best_level = 6\<close> and keeps a strictly
  shorter output.
\<close>

fun zlib_levels :: "runtime \<Rightarrow> bytes \<Rightarrow> nat list \<Rightarrow> bytes \<times> nat \<Rightarrow> error + bytes \<times> nat" where
  "zlib_levels rt data [] best = Inr best"
| "zlib_levels rt data (level # levels) (best_compressed, best_level) =
     (case zlib_compress rt data level of
        Inl e \<Rightarrow> Inl e
      | Inr try_compressed \<Rightarrow>
          zlib_levels rt data levels
            (if length try_compressed < length best_compressed
             then (try_compressed, level)
             else (best_compressed, best_level)))"

text \<open>
  The branches of the \<^verbatim>\<open>try\<close> block after \<^verbatim>\<open>'store'\<close>: the pair
  \<^verbatim>\<open>(compressed, compression_method)\<close>, or \<open>None\<close> when no branch matches and
  \<^verbatim>\<open>compressed\<close> stays \<^verbatim>\<open>None\<close>.
\<close>

definition run_codec :: "runtime \<Rightarrow> bytes \<Rightarrow> string \<Rightarrow> error + (bytes \<times> string) option" where
  "run_codec rt data method =
     (if method = ''zlib'' then
        (case zlib_levels rt data [1, 6, 9] (data, 6) of
           Inl e \<Rightarrow> Inl e
         | Inr (compressed, best_level) \<Rightarrow>
             Inr (Some (compressed, ''zlib-'' @ str_of_nat best_level)))
      else if method = ''bzip2'' then
        (case bz2_compress rt data of
           Inl e \<Rightarrow> Inl e
         | Inr compressed \<Rightarrow> Inr (Some (compressed, ''bzip2'')))
      else if method = ''lzma'' then
        (case lzma_compress rt data of
           Inl e \<Rightarrow> Inl e
         | Inr compressed \<Rightarrow> Inr (Some (compressed, ''lzma'')))
      else Inr None)"

text \<open>The body of the \<^verbatim>\<open>try\<close> block.\<close>

definition try_body :: "runtime \<Rightarrow> bytes \<Rightarrow> string \<Rightarrow> error + bytes \<times> string" where
  "try_body rt data method =
     (if method = ''store'' then Inr (data, ''store'')
      else
        (case run_codec rt data method of
           Inl e \<Rightarrow> Inl e
         | Inr None \<Rightarrow> Inr (data, ''store'')
         | Inr (Some (compressed, compression_method)) \<Rightarrow>
             if compressed \<noteq> [] \<and> length compressed < length data
             then Inr (compressed, compression_method)
             else Inr (data, ''store'')))"

text \<open>
  \<^verbatim>\<open>compress_data\<close>. The analysis and the preprocessing run before the
  \<^verbatim>\<open>try\<close>: an exception there leaves the function. Inside the \<^verbatim>\<open>try\<close>,
  \<^verbatim>\<open>except Exception\<close> answers \<^verbatim>\<open>(data, 'store')\<close>, where \<^verbatim>\<open>data\<close> is the
  variable that the preprocessing has rebound. The message printed on the error path
  goes to standard output and is not part of the result.
\<close>

definition compress_data :: "runtime \<Rightarrow> bytes \<Rightarrow> string \<Rightarrow> error + bytes \<times> string" where
  "compress_data rt data0 method0 =
     (case (if method0 = ''auto'' then analyze_data data0 else Inr method0) of
        Inl e \<Rightarrow> Inl e
      | Inr method \<Rightarrow>
          (case (if method \<noteq> ''store'' \<and> \<not> is_compressed (take 4096 data0)
                 then preprocess_text rt data0 else Inr data0) of
             Inl e \<Rightarrow> Inl e
           | Inr data \<Rightarrow>
               (case try_body rt data method of
                  Inl e \<Rightarrow> Inr (data, ''store'')
                | Inr result \<Rightarrow> Inr result)))"

section \<open>The file system and the archive\<close>

text \<open>
  A path holds a file with bytes that the program may replace (\<open>Plain\<close>), a file
  that can be read but not opened for writing (\<open>ReadOnly\<close>), a ZIP archive
  written through \<^verbatim>\<open>zipfile.ZipFile\<close>, kept as the list of its entries (name and
  content) in the order of the calls that added them, or nothing that can be opened or
  created there (\<open>Blocked\<close>: its directory is missing or closed to the process).
  A path that the file system does not hold has no file yet; one can be created there.
  Reading an archive as a plain file gives the bytes the runtime stores for it. Opening
  a missing or blocked path for reading raises \<^verbatim>\<open>OSError\<close>. Failures of the
  output device after the archive has been opened are not modelled.
\<close>

datatype fcontent = Plain bytes | Archive "entry list" | ReadOnly bytes | Blocked

type_synonym filesystem = "string \<Rightarrow> fcontent option"

text \<open>What the program does to a path: the log of a run lists these in order.\<close>

datatype access = ReadAccess string | WriteAccess string | StatAccess string

text \<open>\<^verbatim>\<open>open(path, 'rb').read()\<close>.\<close>

definition read_file :: "runtime \<Rightarrow> filesystem \<Rightarrow> string \<Rightarrow> error + bytes" where
  "read_file rt fs path =
     (case fs path of
        None \<Rightarrow> Inl OSError
      | Some (Plain data) \<Rightarrow> Inr data
      | Some (Archive entries) \<Rightarrow> Inr (zip_image rt entries)
      | Some (ReadOnly data) \<Rightarrow> Inr data
      | Some Blocked \<Rightarrow> Inl OSError)"

text \<open>\<^verbatim>\<open>os.path.getsize(path)\<close>.\<close>

definition getsize :: "runtime \<Rightarrow> filesystem \<Rightarrow> string \<Rightarrow> error + nat" where
  "getsize rt fs path =
     (case read_file rt fs path of Inl e \<Rightarrow> Inl e | Inr data \<Rightarrow> Inr (length data))"

text \<open>
  \<^verbatim>\<open>zipfile.ZipFile(path, 'w', zipfile.ZIP_DEFLATED)\<close>: the file is created, or
  an existing one is replaced by an archive without entries; where the path cannot be
  opened for writing the constructor raises \<^verbatim>\<open>OSError\<close> and nothing changes.
\<close>

definition writable :: "filesystem \<Rightarrow> string \<Rightarrow> bool" where
  "writable fs path =
     (case fs path of
        None \<Rightarrow> True
      | Some (Plain data) \<Rightarrow> True
      | Some (Archive entries) \<Rightarrow> True
      | Some (ReadOnly data) \<Rightarrow> False
      | Some Blocked \<Rightarrow> False)"

definition zip_open :: "filesystem \<Rightarrow> string \<Rightarrow> error + filesystem" where
  "zip_open fs path = (if writable fs path then Inr (fs(path \<mapsto> Archive [])) else Inl OSError)"

text \<open>
  \<^verbatim>\<open>zipf.writestr(arc_name, data)\<close>, and the writing half of
  \<^verbatim>\<open>zipf.write(file_path, arc_name)\<close>: one more entry in the archive that was
  opened at the path.
\<close>

definition entries_at :: "filesystem \<Rightarrow> string \<Rightarrow> entry list" where
  "entries_at fs path = (case fs path of Some (Archive entries) \<Rightarrow> entries | _ \<Rightarrow> [])"

definition zip_append :: "filesystem \<Rightarrow> string \<Rightarrow> entry \<Rightarrow> filesystem" where
  "zip_append fs path e = fs(path \<mapsto> Archive (entries_at fs path @ [e]))"

text \<open>\<^verbatim>\<open>os.path.basename\<close>: what follows the last slash.\<close>

definition basename :: "string \<Rightarrow> string" where
  "basename path = rev (takeWhile (\<lambda>c. c \<noteq> CHR ''/'') (rev path))"

section \<open>ZipMakerGUI\<close>

text \<open>
  The fields of the window that the methods read and write. A row of the tree view
  keeps the size in bytes (the window shows it through \<^verbatim>\<open>format_size\<close>) and the
  path. The status line is kept by its kind and its data instead of its formatted text:
  the success message carries the original and the compressed size.
  \<open>buttons_enabled\<close> is the state (\<^verbatim>\<open>'normal'\<close> or \<^verbatim>\<open>'disabled'\<close>) of the
  three buttons Add Files, Clear Files and Create Zip File.
\<close>

datatype status = Ready | Processing string | Succeeded nat nat | Failed error

datatype event =
    ShowWarning string
  | ShowInfo nat nat
  | ShowError error
  | AskSaveAs
  | StartThread string

record gui =
  files_to_zip :: "string list"
  compression_method :: string
  is_processing :: bool
  tree :: "(nat \<times> string) list"
  progress_var :: rat
  status_label :: status
  buttons_enabled :: bool

definition init_gui :: gui where
  "init_gui =
     \<lparr>files_to_zip = [], compression_method = ''auto'', is_processing = False,
      tree = [], progress_var = 0, status_label = Ready, buttons_enabled = True\<rparr>"

definition method_values :: "string list" where
  "method_values = [''auto'', ''zlib'', ''bzip2'', ''lzma'', ''store'']"

definition update_buttons_state :: "gui \<Rightarrow> gui" where
  "update_buttons_state s = s\<lparr>buttons_enabled := \<not> is_processing s\<rparr>"

text \<open>
  \<^verbatim>\<open>add_files\<close>, on the tuple of paths that the file dialog returned. The path is
  appended first, then its size is asked for, then the row is inserted: an
  \<^verbatim>\<open>OSError\<close> from \<^verbatim>\<open>os.path.getsize\<close> leaves the loop in between.
\<close>

fun add_files_loop :: "runtime \<Rightarrow> filesystem \<Rightarrow> string list \<Rightarrow> gui \<Rightarrow> gui \<times> error option" where
  "add_files_loop rt fs [] s = (s, None)"
| "add_files_loop rt fs (file # rest) s =
     (if file \<notin> set (files_to_zip s) then
        (let s1 = s\<lparr>files_to_zip := files_to_zip s @ [file]\<rparr> in
         case getsize rt fs file of
           Inl e \<Rightarrow> (s1, Some e)
         | Inr sz \<Rightarrow> add_files_loop rt fs rest (s1\<lparr>tree := tree s1 @ [(sz, file)]\<rparr>))
      else add_files_loop rt fs rest s)"

definition add_files :: "runtime \<Rightarrow> filesystem \<Rightarrow> string list \<Rightarrow> gui \<Rightarrow> gui \<times> error option" where
  "add_files rt fs chosen s = add_files_loop rt fs chosen s"

definition clear_files :: "gui \<Rightarrow> gui" where
  "clear_files s = s\<lparr>files_to_zip := [], tree := []\<rparr>"

text \<open>
  \<^verbatim>\<open>create_zip_threaded\<close>, on the answer of the save dialog (the empty string when
  the user cancels). The dialog is asked only after both guards.
\<close>

definition create_zip_threaded :: "string \<Rightarrow> gui \<Rightarrow> gui \<times> event list" where
  "create_zip_threaded output_path s =
     (if files_to_zip s = [] then (s, [ShowWarning ''No files selected!''])
      else if is_processing s then (s, [ShowWarning ''Already processing!''])
      else if output_path \<noteq> [] then
        (update_buttons_state (s\<lparr>is_processing := True\<rparr>), [AskSaveAs, StartThread output_path])
      else (s, [AskSaveAs]))"

text \<open>
  The state of one run of \<^verbatim>\<open>create_zip\<close>: the file system, the accesses made so
  far, \<^verbatim>\<open>original_size\<close>, \<^verbatim>\<open>compressed_size\<close>, and what the variable
  \<^verbatim>\<open>self.compression_method\<close> holds. The radio buttons stay enabled during a run
  and the loop reads the variable for each file: \<open>click\<close> is the button, if any, that
  the user has pressed since the previous file.
\<close>

record run =
  run_fs :: filesystem
  run_log :: "access list"
  original_size :: nat
  compressed_size :: nat
  method_var :: string

text \<open>
  The body of the loop over \<^verbatim>\<open>self.files_to_zip\<close>, for one file: the file is
  opened with mode \<^verbatim>\<open>'rb'\<close> and read; with a method other than \<^verbatim>\<open>'store'\<close>
  the engine's output goes to \<^verbatim>\<open>zipf.writestr\<close>; otherwise
  \<^verbatim>\<open>zipf.write\<close> reads the file itself and adds it, and
  \<^verbatim>\<open>os.path.getsize\<close> is asked for its size.
\<close>

definition process_file ::
  "runtime \<Rightarrow> string \<Rightarrow> string option \<Rightarrow> string \<Rightarrow> run \<Rightarrow> run \<times> error option" where
  "process_file rt output_path click file_path r0 =
     (let r = r0\<lparr>run_log := run_log r0 @ [ReadAccess file_path],
                 method_var := (case click of None \<Rightarrow> method_var r0 | Some m \<Rightarrow> m)\<rparr> in
      case read_file rt (run_fs r) file_path of
        Inl e \<Rightarrow> (r, Some e)
      | Inr data \<Rightarrow>
          (let r1 = r\<lparr>original_size := original_size r + length data\<rparr>;
               method = method_var r1 in
           if method \<noteq> ''store'' then
             (case compress_data rt data method of
                Inl e \<Rightarrow> (r1, Some e)
              | Inr (compressed_data, used_method) \<Rightarrow>
                  (let arc_name =
                     (if used_method \<noteq> ''store''
                      then basename file_path @ ''.'' @ used_method
                      else basename file_path)
                   in (r1\<lparr>run_fs := zip_append (run_fs r1) output_path (arc_name, compressed_data),
                           run_log := run_log r1 @ [WriteAccess output_path],
                           compressed_size := compressed_size r1 + length compressed_data\<rparr>,
                       None)))
           else
             (case read_file rt (run_fs r1) file_path of
                Inl e \<Rightarrow> (r1\<lparr>run_log := run_log r1 @ [ReadAccess file_path]\<rparr>, Some e)
              | Inr content \<Rightarrow>
                  (let r2 = r1\<lparr>run_fs := zip_append (run_fs r1) output_path
                                           (basename file_path, content),
                               run_log := run_log r1
                                           @ [ReadAccess file_path, WriteAccess output_path,
                                              StatAccess file_path]\<rparr> in
                   case getsize rt (run_fs r2) file_path of
                     Inl e \<Rightarrow> (r2, Some e)
                   | Inr sz \<Rightarrow> (r2\<lparr>compressed_size := compressed_size r2 + sz\<rparr>, None)))))"

fun process_files ::
  "runtime \<Rightarrow> string \<Rightarrow> (nat \<Rightarrow> string option) \<Rightarrow> nat \<Rightarrow> string list \<Rightarrow> run
     \<Rightarrow> run \<times> error option" where
  "process_files rt output_path clicks i [] r = (r, None)"
| "process_files rt output_path clicks i (file_path # rest) r =
     (case process_file rt output_path (clicks i) file_path r of
        (r1, Some e) \<Rightarrow> (r1, Some e)
      | (r1, None) \<Rightarrow> process_files rt output_path clicks (Suc i) rest r1)"

text \<open>
  The end of \<^verbatim>\<open>create_zip\<close>: the status line and, in \<^verbatim>\<open>finally\<close>, the
  processing flag, the buttons and the progress bar.
\<close>

definition finish :: "gui \<Rightarrow> error option \<Rightarrow> nat \<Rightarrow> nat \<Rightarrow> gui" where
  "finish s failure original compressed =
     (update_buttons_state
        ((case failure of
            Some e \<Rightarrow> s\<lparr>status_label := Failed e\<rparr>
          | None \<Rightarrow> s\<lparr>status_label := Succeeded original compressed\<rparr>)
         \<lparr>is_processing := False\<rparr>))\<lparr>progress_var := 0\<rparr>"

definition shown :: "error option \<Rightarrow> nat \<Rightarrow> nat \<Rightarrow> event list" where
  "shown failure original compressed =
     (case failure of Some e \<Rightarrow> [ShowError e] | None \<Rightarrow> [ShowInfo original compressed])"

text \<open>
  \<^verbatim>\<open>create_zip\<close>, with the accesses it makes. When the archive cannot be opened
  the loop does not run and nothing is written. Once it is open, the \<^verbatim>\<open>with\<close>
  block closes it on every way out, so the output path holds the entries written before
  an exception. After the block the compression ratio divides by
  \<^verbatim>\<open>original_size\<close>. Any exception ends in the error dialog.
\<close>

definition create_zip_run ::
  "runtime \<Rightarrow> filesystem \<Rightarrow> string \<Rightarrow> (nat \<Rightarrow> string option) \<Rightarrow> gui
     \<Rightarrow> (gui \<times> filesystem \<times> event list) \<times> access list" where
  "create_zip_run rt fs output_path clicks s =
     (case zip_open fs output_path of
        Inl e \<Rightarrow> ((finish s (Some e) 0 0, fs, shown (Some e) 0 0), [WriteAccess output_path])
      | Inr fs0 \<Rightarrow>
          (case process_files rt output_path clicks 0 (files_to_zip s)
                  \<lparr>run_fs = fs0, run_log = [WriteAccess output_path], original_size = 0,
                   compressed_size = 0, method_var = compression_method s\<rparr> of
             (r, outcome) \<Rightarrow>
               (let failure =
                      (case outcome of
                         Some e \<Rightarrow> Some e
                       | None \<Rightarrow>
                           (if original_size r = 0 then Some ZeroDivisionError else None))
                in ((finish (s\<lparr>compression_method := method_var r\<rparr>) failure
                       (original_size r) (compressed_size r),
                     run_fs r,
                     shown failure (original_size r) (compressed_size r)),
                    run_log r))))"

definition create_zip ::
  "runtime \<Rightarrow> filesystem \<Rightarrow> string \<Rightarrow> (nat \<Rightarrow> string option) \<Rightarrow> gui
     \<Rightarrow> gui \<times> filesystem \<times> event list" where
  "create_zip rt fs output_path clicks s = fst (create_zip_run rt fs output_path clicks s)"


text \<open>
  The states of the window: from the initial one, by any sequence of the operations
  above, of the radio buttons and of the updates that the running thread makes to the
  status line and the progress bar, in any order (more orders than the disabled buttons
  allow), with any answers of the dialogs, any runtime and any file system.
\<close>

inductive reachable :: "gui \<Rightarrow> bool" where
  start: "reachable init_gui"
| added: "reachable s \<Longrightarrow> reachable (fst (add_files rt fs chosen s))"
| cleared: "reachable s \<Longrightarrow> reachable (clear_files s)"
| selected: "reachable s \<Longrightarrow> m \<in> set method_values \<Longrightarrow> reachable (s\<lparr>compression_method := m\<rparr>)"
| asked: "reachable s \<Longrightarrow> reachable (fst (create_zip_threaded output_path s))"
| progressed: "reachable s \<Longrightarrow> reachable (s\<lparr>status_label := Processing name, progress_var := q\<rparr>)"
| zipped: "reachable s \<Longrightarrow> reachable (fst (create_zip rt fs output_path clicks s))"

text \<open>
  The states that the user can bring the window to. A button whose state is
  \<^verbatim>\<open>'disabled'\<close> does not call its command, so Add Files, Clear Files and Create
  Zip File act only while the buttons are enabled; the radio buttons are never
  disabled; the thread that runs \<^verbatim>\<open>create_zip\<close> exists only after
  \<^verbatim>\<open>create_zip_threaded\<close> has set the processing flag and started it.
\<close>

inductive window_state :: "gui \<Rightarrow> bool" where
  w_start: "window_state init_gui"
| w_added: "window_state s \<Longrightarrow> buttons_enabled s
     \<Longrightarrow> window_state (fst (add_files rt fs chosen s))"
| w_cleared: "window_state s \<Longrightarrow> buttons_enabled s \<Longrightarrow> window_state (clear_files s)"
| w_selected: "window_state s \<Longrightarrow> m \<in> set method_values
     \<Longrightarrow> window_state (s\<lparr>compression_method := m\<rparr>)"
| w_asked: "window_state s \<Longrightarrow> buttons_enabled s
     \<Longrightarrow> window_state (fst (create_zip_threaded output_path s))"
| w_progressed: "window_state s \<Longrightarrow> is_processing s
     \<Longrightarrow> window_state (s\<lparr>status_label := Processing name, progress_var := q\<rparr>)"
| w_zipped: "window_state s \<Longrightarrow> is_processing s
     \<Longrightarrow> window_state (fst (create_zip rt fs output_path clicks s))"





text \<open>
  A runtime for closed examples: its codecs fail, its tables know no character beyond
  ASCII, and an archive read as a file is empty (as the output file is right after it
  has been opened for writing).
\<close>

definition sample_runtime :: runtime where
  "sample_runtime =
     \<lparr>zlib_compress = (\<lambda>data level. Inl CodecError),
      bz2_compress = (\<lambda>data. Inl CodecError),
      lzma_compress = (\<lambda>data. Inl CodecError),
      uni_isspace = (\<lambda>c. False),
      uni_isalnum = (\<lambda>c. False),
      uni_lower = (\<lambda>text. text),
      zip_image = (\<lambda>entries. [])\<rparr>"

section \<open>Facts about the heuristic\<close>

lemma entropy_loop_raises:
  "tot \<noteq> 0 \<Longrightarrow> entropy_loop tot entropy (count # rest) = Inl AttributeError"
  by (simp add: true_div_def)

lemma calculate_entropy_nonempty:
  "data \<noteq> [] \<Longrightarrow> calculate_entropy data = Inl AttributeError"
  by (cases data) (simp_all add: calculate_entropy_def true_div_def)

lemma calculate_entropy_empty: "calculate_entropy [] = Inr (PyInt 0)"
  by (simp add: calculate_entropy_def)

lemma analyze_data_nonempty: "data \<noteq> [] \<Longrightarrow> analyze_data data = Inl AttributeError"
  by (simp add: analyze_data_def calculate_entropy_nonempty)

lemma analyze_data_empty: "analyze_data [] = Inr ''zlib''"
  by (simp add: analyze_data_def calculate_entropy_empty is_compressed_def
      compression_signatures_def)

text \<open>
  C1. The claim: for every input \<^verbatim>\<open>analyze_data\<close> picks one of the four
  encodings, \<^verbatim>\<open>'zlib'\<close> for an input shorter than 1024 bytes. The code at the
  one-byte input \<^verbatim>\<open>b'a'\<close>: the quotient \<^verbatim>\<open>count / total\<close> is a float, a float
  has no \<^verbatim>\<open>bit_length\<close>, and \<^verbatim>\<open>analyze_data\<close> raises
  \<^verbatim>\<open>AttributeError\<close> instead of returning a method.
\<close>

theorem analyze_data_raises_on_one_byte: "analyze_data [97] = Inl AttributeError"
  by (simp add: analyze_data_nonempty)

text \<open>
  C2. The claim: \<^verbatim>\<open>compress_data\<close> returns normally for every input and method,
  exceptions of the analysis included. The code at \<^verbatim>\<open>b'a'\<close> with
  \<^verbatim>\<open>method='auto'\<close>, for every runtime: the analysis runs before the
  \<^verbatim>\<open>try\<close>, and its \<^verbatim>\<open>AttributeError\<close> leaves \<^verbatim>\<open>compress_data\<close>.
\<close>

theorem compress_data_auto_raises: "compress_data rt [97] ''auto'' = Inl AttributeError"
  by (simp add: compress_data_def analyze_data_nonempty)

text \<open>
  C3. The claim: an input that starts with a recognised signature makes
  \<^verbatim>\<open>analyze_data\<close> return \<^verbatim>\<open>'store'\<close>. The code at the ZIP signature
  \<^verbatim>\<open>b'PK\x03\x04'\<close>: the signature test recognises the sample, but the entropy is
  computed before the test and raises \<^verbatim>\<open>AttributeError\<close>.
\<close>

theorem analyze_data_raises_on_zip_signature:
  "is_compressed (take 4096 [0x50, 0x4B, 0x03, 0x04])
   \<and> analyze_data [0x50, 0x4B, 0x03, 0x04] = Inl AttributeError"
  by (simp add: is_compressed_def compression_signatures_def analyze_data_nonempty)

section \<open>Facts about compress\_data\<close>

lemma preprocess_text_upper_A: "preprocess_text rt [65] = Inr [97]"
  by (simp add: preprocess_text_def str_split_def py_isspace_def str_isalnum_def
      py_isalnum_def str_lower_def ascii_lower_def utf8_encode_cp_def)

text \<open>
  C4. The claim: with the label \<^verbatim>\<open>'store'\<close> the bytes returned are the original
  input. The code at \<^verbatim>\<open>b'A'\<close> with \<^verbatim>\<open>method='zlib'\<close>, for every runtime
  (whatever the codec answers, and also when it raises): the preprocessing has rebound
  \<^verbatim>\<open>data\<close> to the lowercased text, no output is shorter than one byte and
  non-empty, and the result is \<^verbatim>\<open>(b'a', 'store')\<close>.
\<close>

theorem compress_data_store_returns_preprocessed:
  "compress_data rt [65] ''zlib'' = Inr ([97], ''store'')"
  by (simp add: compress_data_def is_compressed_def compression_signatures_def
      preprocess_text_upper_A try_body_def run_codec_def split: sum.splits option.splits)

text \<open>
  C7. With \<^verbatim>\<open>method='store'\<close>, \<^verbatim>\<open>compress_data\<close> returns its input and the
  label \<^verbatim>\<open>'store'\<close>, for every byte string and every runtime: neither the analysis
  nor the preprocessing runs.
\<close>

theorem compress_data_store_identity: "compress_data rt data ''store'' = Inr (data, ''store'')"
  by (simp add: compress_data_def try_body_def)

text \<open>
  C6. The claim: two inputs that agree on their first 4096 bytes and on whether their
  length is below 1024 get the same method from \<^verbatim>\<open>analyze_data\<close>. The code at
  two inputs of 4097 bytes that differ in the last byte only: for neither does
  \<^verbatim>\<open>analyze_data\<close> return a method, both calls raise \<^verbatim>\<open>AttributeError\<close>
  (the float without \<^verbatim>\<open>bit_length\<close> of C1).
\<close>

theorem analyze_data_sample_pair_raises:
  "take 4096 (replicate 4096 (0::byte) @ [1]) = take 4096 (replicate 4096 0 @ [2])
   \<and> (length (replicate 4096 (0::byte) @ [1]) < 1024) = (length (replicate 4096 (0::byte) @ [2]) < 1024)
   \<and> analyze_data (replicate 4096 0 @ [1]) = Inl AttributeError
   \<and> analyze_data (replicate 4096 0 @ [2]) = Inl AttributeError"
  by (simp add: analyze_data_nonempty)

section \<open>Facts about the window\<close>

lemma add_files_loop_appends:
  "add_files_loop rt fs chosen s = (s', r) \<Longrightarrow>
   \<exists>added rows. files_to_zip s' = files_to_zip s @ added \<and> tree s' = tree s @ rows
     \<and> set added \<subseteq> set chosen \<and> set added \<inter> set (files_to_zip s) = {} \<and> distinct added
     \<and> (r = None \<longrightarrow> map snd rows = added \<and> set chosen \<subseteq> set (files_to_zip s) \<union> set added)
     \<and> (r \<noteq> None \<longrightarrow> added \<noteq> [] \<and> map snd rows = butlast added)"
proof (induction rt fs chosen s arbitrary: s' r rule: add_files_loop.induct)
  case (1 rt fs s)
  then show ?case by simp
next
  case (2 rt fs path rest s)
  show ?case
  proof (cases "path \<in> set (files_to_zip s)")
    case True
    with 2 have "add_files_loop rt fs rest s = (s', r)" by simp
    from "2.IH"(2) [OF _ this] True obtain added rows where
      "files_to_zip s' = files_to_zip s @ added" "tree s' = tree s @ rows"
      "set added \<subseteq> set rest" "set added \<inter> set (files_to_zip s) = {}" "distinct added"
      "r = None \<longrightarrow> map snd rows = added \<and> set rest \<subseteq> set (files_to_zip s) \<union> set added"
      "r \<noteq> None \<longrightarrow> added \<noteq> [] \<and> map snd rows = butlast added"
      by blast
    with True show ?thesis by (intro exI [of _ added] exI [of _ rows]) auto
  next
    case False
    show ?thesis
    proof (cases "getsize rt fs path")
      case (Inl e)
      with False 2 have "s' = s\<lparr>files_to_zip := files_to_zip s @ [path]\<rparr>" "r = Some e"
        by (simp_all add: Let_def)
      with False show ?thesis
        by (intro exI [of _ "[path]"] exI [of _ "[]"]) simp
    next
      case (Inr sz)
      let ?s1 = "s\<lparr>files_to_zip := files_to_zip s @ [path]\<rparr>"
      let ?s2 = "?s1\<lparr>tree := tree ?s1 @ [(sz, path)]\<rparr>"
      from False Inr 2 have run: "add_files_loop rt fs rest ?s2 = (s', r)"
        by (simp add: Let_def)
      from "2.IH"(1) [OF False refl Inr run] obtain added rows where a:
        "files_to_zip s' = files_to_zip ?s2 @ added" "tree s' = tree ?s2 @ rows"
        "set added \<subseteq> set rest" "set added \<inter> set (files_to_zip ?s2) = {}" "distinct added"
        "r = None \<longrightarrow> map snd rows = added \<and> set rest \<subseteq> set (files_to_zip ?s2) \<union> set added"
        "r \<noteq> None \<longrightarrow> added \<noteq> [] \<and> map snd rows = butlast added"
        by blast
      with False show ?thesis
        by (intro exI [of _ "path # added"] exI [of _ "(sz, path) # rows"]) auto
    qed
  qed
qed

lemma add_files_appends:
  "\<exists>added rows.
     files_to_zip (fst (add_files rt fs chosen s)) = files_to_zip s @ added
     \<and> tree (fst (add_files rt fs chosen s)) = tree s @ rows
     \<and> set added \<subseteq> set chosen \<and> set added \<inter> set (files_to_zip s) = {} \<and> distinct added
     \<and> (snd (add_files rt fs chosen s) = None
          \<longrightarrow> map snd rows = added \<and> set chosen \<subseteq> set (files_to_zip s) \<union> set added)
     \<and> (snd (add_files rt fs chosen s) \<noteq> None
          \<longrightarrow> added \<noteq> [] \<and> map snd rows = butlast added)"
  unfolding add_files_def
  by (rule add_files_loop_appends) simp

lemma add_files_distinct:
  "distinct (files_to_zip s) \<Longrightarrow> distinct (files_to_zip (fst (add_files rt fs chosen s)))"
proof -
  assume d: "distinct (files_to_zip s)"
  from add_files_appends [of rt fs chosen s] obtain added where
    "files_to_zip (fst (add_files rt fs chosen s)) = files_to_zip s @ added"
    "set added \<inter> set (files_to_zip s) = {}" "distinct added"
    by blast
  with d show ?thesis by auto
qed

lemma add_files_loop_flags:
  "is_processing (fst (add_files_loop rt fs chosen s)) = is_processing s
   \<and> buttons_enabled (fst (add_files_loop rt fs chosen s)) = buttons_enabled s"
  by (induction rt fs chosen s rule: add_files_loop.induct)
    (auto simp add: Let_def split: sum.splits)

lemma create_zip_gui:
  "files_to_zip (fst (create_zip rt fs output_path clicks s)) = files_to_zip s
   \<and> \<not> is_processing (fst (create_zip rt fs output_path clicks s))
   \<and> buttons_enabled (fst (create_zip rt fs output_path clicks s))"
  by (simp add: create_zip_def create_zip_run_def finish_def update_buttons_state_def Let_def
      split: prod.splits option.splits sum.splits)

lemma create_zip_threaded_files_to_zip:
  "files_to_zip (fst (create_zip_threaded output_path s)) = files_to_zip s"
  by (simp add: create_zip_threaded_def update_buttons_state_def)

lemma reachable_distinct: "reachable s \<Longrightarrow> distinct (files_to_zip s)"
  by (induction rule: reachable.induct)
    (simp_all add: init_gui_def add_files_distinct clear_files_def create_zip_gui
      create_zip_threaded_files_to_zip)

text \<open>
  C9 as amended. The list \<^verbatim>\<open>files_to_zip\<close> has no duplicates in any state of the
  window. \<^verbatim>\<open>add_files\<close> only appends, and only chosen paths that the list does
  not hold yet. When it returns normally every chosen path is in the list and each
  appended path has its row in the tree view, in the same order; when
  \<^verbatim>\<open>os.path.getsize\<close> raises, the path it was asked about is the last one
  appended and the only appended one without a row. \<^verbatim>\<open>clear_files\<close> empties the
  list and the tree view. \<^verbatim>\<open>create_zip_threaded\<close> and \<^verbatim>\<open>create_zip\<close> leave
  the list as it is.
\<close>

theorem files_to_zip_no_duplicates:
  "(reachable s \<longrightarrow> distinct (files_to_zip s))
   \<and> (distinct (files_to_zip s) \<longrightarrow> distinct (files_to_zip (fst (add_files rt fs chosen s))))
   \<and> (\<exists>added rows.
         files_to_zip (fst (add_files rt fs chosen s)) = files_to_zip s @ added
         \<and> tree (fst (add_files rt fs chosen s)) = tree s @ rows
         \<and> set added \<subseteq> set chosen \<and> set added \<inter> set (files_to_zip s) = {} \<and> distinct added
         \<and> (snd (add_files rt fs chosen s) = None
              \<longrightarrow> map snd rows = added \<and> set chosen \<subseteq> set (files_to_zip s) \<union> set added)
         \<and> (snd (add_files rt fs chosen s) \<noteq> None
              \<longrightarrow> added \<noteq> [] \<and> map snd rows = butlast added))
   \<and> files_to_zip (clear_files s) = [] \<and> tree (clear_files s) = []
   \<and> files_to_zip (fst (create_zip_threaded output_path s)) = files_to_zip s
   \<and> files_to_zip (fst (create_zip rt fs output_path clicks s)) = files_to_zip s"
proof -
  have "reachable s \<longrightarrow> distinct (files_to_zip s)"
    by (simp add: reachable_distinct)
  moreover have "distinct (files_to_zip s)
      \<longrightarrow> distinct (files_to_zip (fst (add_files rt fs chosen s)))"
    by (simp add: add_files_distinct)
  moreover have "\<exists>added rows.
         files_to_zip (fst (add_files rt fs chosen s)) = files_to_zip s @ added
         \<and> tree (fst (add_files rt fs chosen s)) = tree s @ rows
         \<and> set added \<subseteq> set chosen \<and> set added \<inter> set (files_to_zip s) = {} \<and> distinct added
         \<and> (snd (add_files rt fs chosen s) = None
              \<longrightarrow> map snd rows = added \<and> set chosen \<subseteq> set (files_to_zip s) \<union> set added)
         \<and> (snd (add_files rt fs chosen s) \<noteq> None
              \<longrightarrow> added \<noteq> [] \<and> map snd rows = butlast added)"
    by (rule add_files_appends)
  moreover have "files_to_zip (clear_files s) = [] \<and> tree (clear_files s) = []"
    by (simp add: clear_files_def)
  ultimately show ?thesis
    by (simp only: create_zip_threaded_files_to_zip create_zip_gui simp_thms)
qed

theorem files_to_zip_no_duplicates_witness:
  "reachable init_gui
   \<and> distinct (files_to_zip init_gui)
   \<and> snd (add_files sample_runtime (Map.empty(''/in/a.txt'' \<mapsto> Plain [1, 2, 3]))
            [''/in/a.txt'', ''/in/a.txt''] init_gui) = None
   \<and> distinct (files_to_zip (fst (add_files sample_runtime
            (Map.empty(''/in/a.txt'' \<mapsto> Plain [1, 2, 3])) [''/in/a.txt'', ''/in/a.txt''] init_gui)))
   \<and> files_to_zip (fst (add_files sample_runtime
            (Map.empty(''/in/a.txt'' \<mapsto> Plain [1, 2, 3])) [''/in/a.txt'', ''/in/a.txt''] init_gui))
       = [''/in/a.txt'']
   \<and> tree (fst (add_files sample_runtime
            (Map.empty(''/in/a.txt'' \<mapsto> Plain [1, 2, 3])) [''/in/a.txt'', ''/in/a.txt''] init_gui))
       = [(3, ''/in/a.txt'')]"
proof -
  have r: "reachable init_gui" by (rule reachable.start)
  have d: "distinct (files_to_zip init_gui)" by (simp add: init_gui_def)
  have n: "snd (add_files sample_runtime (Map.empty(''/in/a.txt'' \<mapsto> Plain [1, 2, 3]))
            [''/in/a.txt'', ''/in/a.txt''] init_gui) = None"
    by (simp add: add_files_def getsize_def read_file_def init_gui_def)
  have v: "fst (add_files sample_runtime (Map.empty(''/in/a.txt'' \<mapsto> Plain [1, 2, 3]))
            [''/in/a.txt'', ''/in/a.txt''] init_gui)
         = init_gui\<lparr>files_to_zip := [''/in/a.txt''], tree := [(3, ''/in/a.txt'')]\<rparr>"
    by (simp add: add_files_def getsize_def read_file_def init_gui_def)
  note w = files_to_zip_no_duplicates [where s = init_gui and rt = sample_runtime
      and fs = "Map.empty(''/in/a.txt'' \<mapsto> Plain [1, 2, 3])"
      and chosen = "[''/in/a.txt'', ''/in/a.txt'']", THEN conjunct2, THEN conjunct1, THEN mp, OF d]
  from r d n w v show ?thesis by simp
qed

text \<open>
  C9 as stated fails where \<^verbatim>\<open>os.path.getsize\<close> raises: the chosen path, which no
  file is at, has been appended to \<^verbatim>\<open>files_to_zip\<close>, and the tree view has no
  row for it.
\<close>

theorem add_files_appends_without_row:
  "files_to_zip (fst (add_files sample_runtime Map.empty [''/in/gone.txt''] init_gui))
     = [''/in/gone.txt'']
   \<and> tree (fst (add_files sample_runtime Map.empty [''/in/gone.txt''] init_gui)) = []
   \<and> snd (add_files sample_runtime Map.empty [''/in/gone.txt''] init_gui) = Some OSError"
  by (simp add: add_files_def getsize_def read_file_def init_gui_def)

lemma window_state_processing:
  "window_state s \<Longrightarrow> is_processing s \<longrightarrow> files_to_zip s \<noteq> [] \<and> \<not> buttons_enabled s"
proof (induction rule: window_state.induct)
  case w_start
  show ?case by (simp add: init_gui_def)
next
  case (w_added s rt fs chosen)
  then show ?case by (auto simp add: add_files_def add_files_loop_flags)
next
  case (w_cleared s)
  then show ?case by (auto simp add: clear_files_def)
next
  case (w_selected s m)
  then show ?case by simp
next
  case (w_asked s output_path)
  then show ?case by (auto simp add: create_zip_threaded_def update_buttons_state_def)
next
  case (w_progressed s name q)
  then show ?case by simp
next
  case (w_zipped s rt fs output_path clicks)
  show ?case by (simp add: create_zip_gui)
qed

text \<open>
  C8. In every state that the user can bring the window to,
  \<^verbatim>\<open>create_zip_threaded\<close> starts the archiving thread exactly when the selection
  is not empty, no run is in progress and the save dialog returned a path; it then sets
  the processing flag and disables the buttons. With an empty selection it shows the
  warning \<^verbatim>\<open>No files selected!\<close> and leaves the state as it is; while a run is in
  progress it shows \<^verbatim>\<open>Already processing!\<close> and leaves the state as it is; when
  the user cancels the dialog nothing changes.
\<close>

theorem create_zip_threaded_starts_only_when_ready:
  "window_state s \<Longrightarrow>
   (StartThread p \<in> set (snd (create_zip_threaded output_path s))
      \<longleftrightarrow> files_to_zip s \<noteq> [] \<and> \<not> is_processing s \<and> output_path \<noteq> [] \<and> p = output_path)
   \<and> (files_to_zip s = []
        \<longrightarrow> create_zip_threaded output_path s = (s, [ShowWarning ''No files selected!'']))
   \<and> (is_processing s
        \<longrightarrow> create_zip_threaded output_path s = (s, [ShowWarning ''Already processing!'']))
   \<and> (files_to_zip s \<noteq> [] \<and> \<not> is_processing s \<and> output_path \<noteq> []
        \<longrightarrow> create_zip_threaded output_path s
            = (s\<lparr>is_processing := True, buttons_enabled := False\<rparr>,
               [AskSaveAs, StartThread output_path]))
   \<and> (files_to_zip s \<noteq> [] \<and> \<not> is_processing s \<and> output_path = []
        \<longrightarrow> create_zip_threaded output_path s = (s, [AskSaveAs]))"
  using window_state_processing [of s]
  by (auto simp add: create_zip_threaded_def update_buttons_state_def)

theorem create_zip_threaded_starts_only_when_ready_witness:
  "window_state (fst (create_zip_threaded ''/out.zip'' (fst (add_files sample_runtime (Map.empty(''/in/a.txt'' \<mapsto> Plain [1, 2, 3])) [''/in/a.txt''] init_gui))))
   \<and> is_processing (fst (create_zip_threaded ''/out.zip'' (fst (add_files sample_runtime (Map.empty(''/in/a.txt'' \<mapsto> Plain [1, 2, 3])) [''/in/a.txt''] init_gui))))
   \<and> create_zip_threaded ''/other.zip'' (fst (create_zip_threaded ''/out.zip'' (fst (add_files sample_runtime (Map.empty(''/in/a.txt'' \<mapsto> Plain [1, 2, 3])) [''/in/a.txt''] init_gui)))) = ((fst (create_zip_threaded ''/out.zip'' (fst (add_files sample_runtime (Map.empty(''/in/a.txt'' \<mapsto> Plain [1, 2, 3])) [''/in/a.txt''] init_gui)))), [ShowWarning ''Already processing!''])"
proof -
  have e: "buttons_enabled init_gui" by (simp add: init_gui_def)
  have a: "window_state (fst (add_files sample_runtime (Map.empty(''/in/a.txt'' \<mapsto> Plain [1, 2, 3])) [''/in/a.txt''] init_gui))"
    by (rule window_state.w_added [OF window_state.w_start e])
  have v: "(fst (add_files sample_runtime (Map.empty(''/in/a.txt'' \<mapsto> Plain [1, 2, 3])) [''/in/a.txt''] init_gui)) = init_gui\<lparr>files_to_zip := [''/in/a.txt''], tree := [(3, ''/in/a.txt'')]\<rparr>"
    by (simp add: add_files_def getsize_def read_file_def init_gui_def)
  have b: "buttons_enabled (fst (add_files sample_runtime (Map.empty(''/in/a.txt'' \<mapsto> Plain [1, 2, 3])) [''/in/a.txt''] init_gui))"
    unfolding v by (simp add: init_gui_def)
  have c: "window_state (fst (create_zip_threaded ''/out.zip'' (fst (add_files sample_runtime (Map.empty(''/in/a.txt'' \<mapsto> Plain [1, 2, 3])) [''/in/a.txt''] init_gui))))"
    by (rule window_state.w_asked [OF a b])
  have p: "is_processing (fst (create_zip_threaded ''/out.zip'' (fst (add_files sample_runtime (Map.empty(''/in/a.txt'' \<mapsto> Plain [1, 2, 3])) [''/in/a.txt''] init_gui))))"
    unfolding v by (simp add: create_zip_threaded_def update_buttons_state_def init_gui_def)
  note w = create_zip_threaded_starts_only_when_ready [OF c, where output_path = "''/other.zip''",
      THEN conjunct2, THEN conjunct2, THEN conjunct1, THEN mp, OF p]
  from c p w show ?thesis by (intro conjI)
qed

section \<open>Facts about create\_zip\<close>

text \<open>
  C5. The claim: for every non-empty selection and every method the archive holds one
  entry per selected file. The code with the method \<^verbatim>\<open>'auto'\<close> (the initial
  choice of the window, left as it is during the run) and one selected file that holds
  \<^verbatim>\<open>b'a'\<close>, for every runtime: \<^verbatim>\<open>compress_data\<close> raises
  \<^verbatim>\<open>AttributeError\<close>, the handler of \<^verbatim>\<open>create_zip\<close> shows the error, and the
  archive at the output path has no entry.
\<close>

theorem create_zip_auto_writes_no_entry:
  "create_zip rt (Map.empty(''/docs/a.txt'' \<mapsto> Plain [97])) ''/out.zip'' (\<lambda>i. None)
     (init_gui\<lparr>files_to_zip := [''/docs/a.txt'']\<rparr>)
   = (init_gui\<lparr>files_to_zip := [''/docs/a.txt''], status_label := Failed AttributeError\<rparr>,
      (Map.empty(''/docs/a.txt'' \<mapsto> Plain [97]))(''/out.zip'' \<mapsto> Archive []),
      [ShowError AttributeError])"
  by (simp add: create_zip_def create_zip_run_def zip_open_def writable_def init_gui_def
      process_file_def read_file_def compress_data_def analyze_data_nonempty finish_def
      shown_def update_buttons_state_def)


















end
